theory Spec2Isabelle
  imports Complex_Main
begin

section \<open>Numbers, time and errors\<close>

text \<open>
  Prices are Python floats in the source. They are idealised here as exact rationals:
  every arithmetic expression of the source is computed without rounding error, and
  \<open>round(x, 2)\<close> is the only rounding step. Integers are Python's unbounded ints.
  A point in time is a clock reading in microseconds, the resolution of \<open>datetime\<close>.
\<close>

type_synonym time = int

definition hours24 :: time where
  "hours24 = 24 * 3600 * 1000000"

text \<open>Python truthiness of an \<open>Optional[float]\<close>: \<open>None\<close> and \<open>0\<close> are false.\<close>

definition truthy :: "rat option \<Rightarrow> bool" where
  "truthy v = (case v of None \<Rightarrow> False | Some x \<Rightarrow> x \<noteq> 0)"

text \<open>Python truthiness of an \<open>Optional[str]\<close>: \<open>None\<close> and the empty string are false.\<close>

definition truthy_str :: "string option \<Rightarrow> bool" where
  "truthy_str v = (case v of None \<Rightarrow> False | Some x \<Rightarrow> x \<noteq> [])"

text \<open>\<open>round(x, 2)\<close>: to the nearest multiple of 0.01, a tie going to the even one.\<close>

definition round_half_even :: "rat \<Rightarrow> int" where
  "round_half_even x =
     (let f = \<lfloor>x\<rfloor>; d = x - of_int f
      in if d < 1 / 2 then f
         else if 1 / 2 < d then f + 1
         else if even f then f else f + 1)"

definition py_round2 :: "rat \<Rightarrow> rat" where
  "py_round2 x = of_int (round_half_even (x * 100)) / 100"

text \<open>
  Every domain error of the two services is a \<open>ValueError\<close> told apart by its message;
  one constructor per message, carrying the identifier the message names. The last four
  are the exceptions the interpreter or the database raises from the same functions.
\<close>

datatype error =
    SessionNotFound string
  | SupplierNotFound string
  | NoPreviousRound string
  | NoValidOffer string
  | ConsentRequired
  | MandateNotFound string
  | VerificationFailed string
  | MustBeVerified string
  | IndexError
  | ZeroDivisionError
  | TypeError
  | IntegrityError

section \<open>Tables\<close>

record item =
  sku :: string
  quantity :: int

record supplier =
  supplier_id :: string
  supplier_name :: string

record product =
  asin :: string
  unit_cost :: "rat option"

record negotiation_session =
  s_session_id :: string
  s_status :: string
  s_items :: "item list"
  s_target_price :: "rat option"
  s_max_rounds :: int
  s_current_round :: int
  s_winning_supplier_id :: "string option"
  s_final_price :: "rat option"
  s_total_value :: "rat option"
  s_created_at :: time
  s_completed_at :: "time option"
  s_created_by :: string

record negotiation_round =
  r_round_id :: string
  r_session_id :: string
  r_supplier_id :: string
  r_round_number :: int
  r_offer_type :: string
  r_offered_price :: rat
  r_total_value :: rat
  r_counter_price :: "rat option"
  r_justification :: "string option"
  r_status :: string
  r_response_received_at :: "time option"
  r_created_at :: time

text \<open>
  The negotiation tables of the database session, each a list of rows in insertion order.
  The primary key of a table is checked when a row is added.
\<close>

record neg_db =
  suppliers :: "supplier list"
  products :: "product list"
  sessions :: "negotiation_session list"
  rounds :: "negotiation_round list"

type_synonym 'r outcome = "neg_db \<times> (error + 'r)"

definition find_session :: "neg_db \<Rightarrow> string \<Rightarrow> negotiation_session option" where
  "find_session db sid = find (\<lambda>s. s_session_id s = sid) (sessions db)"

definition find_supplier :: "supplier list \<Rightarrow> string \<Rightarrow> supplier option" where
  "find_supplier sups supp = find (\<lambda>s. supplier_id s = supp) sups"

definition find_product :: "neg_db \<Rightarrow> string \<Rightarrow> product option" where
  "find_product db k = find (\<lambda>p. asin p = k) (products db)"

definition find_round :: "neg_db \<Rightarrow> string \<Rightarrow> negotiation_round option" where
  "find_round db rid = find (\<lambda>r. r_round_id r = rid) (rounds db)"

text \<open>
  \<open>order_by(round_number.desc()).first()\<close>: a row of greatest round number; among equal
  round numbers the row inserted first.
\<close>

fun first_desc :: "negotiation_round list \<Rightarrow> negotiation_round option" where
  "first_desc [] = None"
| "first_desc (r # rs) =
     (case first_desc rs of
        None \<Rightarrow> Some r
      | Some r' \<Rightarrow> if r_round_number r < r_round_number r' then Some r' else Some r)"

definition latest_round :: "neg_db \<Rightarrow> string \<Rightarrow> string \<Rightarrow> negotiation_round option" where
  "latest_round db sid supp =
     first_desc (filter (\<lambda>r. r_session_id r = sid \<and> r_supplier_id r = supp) (rounds db))"

definition update_session ::
  "string \<Rightarrow> (negotiation_session \<Rightarrow> negotiation_session) \<Rightarrow> neg_db \<Rightarrow> neg_db" where
  "update_session sid f db =
     db\<lparr>sessions := map (\<lambda>s. if s_session_id s = sid then f s else s) (sessions db)\<rparr>"

definition update_round ::
  "string \<Rightarrow> (negotiation_round \<Rightarrow> negotiation_round) \<Rightarrow> neg_db \<Rightarrow> neg_db" where
  "update_round rid f db =
     db\<lparr>rounds := map (\<lambda>r. if r_round_id r = rid then f r else r) (rounds db)\<rparr>"

section \<open>NegotiationService\<close>



record quote_response =
  q_round_id :: string
  q_session_id :: string
  q_supplier_id :: string
  q_supplier_name :: string
  q_offered_price :: rat
  q_total_value :: rat
  q_status :: string
  q_simulated :: bool
  q_items :: "item list"

text \<open>
  \<open>request_quote\<close>. \<open>markup\<close> is the value drawn by \<open>random.uniform(1.05, 1.15)\<close>,
  \<open>now\<close> the reading of \<open>datetime.now()\<close>.
\<close>

definition request_quote ::
  "neg_db \<Rightarrow> string \<Rightarrow> string \<Rightarrow> string \<Rightarrow> rat \<Rightarrow> string \<Rightarrow> time \<Rightarrow> time
     \<Rightarrow> quote_response outcome" where
  "request_quote db session_id supp urgency markup uuid_hex now db_now =
    (case find_session db session_id of
       None \<Rightarrow> (db, Inl (SessionNotFound session_id))
     | Some session \<Rightarrow>
    (case find_supplier (suppliers db) supp of
       None \<Rightarrow> (db, Inl (SupplierNotFound supp))
     | Some supplier \<Rightarrow>
    (case s_items session of
       [] \<Rightarrow> (db, Inl IndexError)
     | it # _ \<Rightarrow>
        (let base_price =
               (case find_product db (sku it) of
                  None \<Rightarrow> 5
                | Some p \<Rightarrow> (case unit_cost p of
                              None \<Rightarrow> 5
                            | Some c \<Rightarrow> if c = 0 then 5 else c));
             offered_price = py_round2 (base_price * markup);
             total_value = py_round2 (offered_price * of_int (quantity it));
             round_id = ''rnd-'' @ take 8 uuid_hex;
             round_number = s_current_round session + 1;
             round_entry =
               \<lparr>r_round_id = round_id, r_session_id = session_id, r_supplier_id = supp,
                r_round_number = round_number, r_offer_type = ''initial'',
                r_offered_price = offered_price, r_total_value = total_value,
                r_counter_price = None, r_justification = None, r_status = ''received'',
                r_response_received_at = Some now, r_created_at = db_now\<rparr>
         in case find_round db round_id of
              Some _ \<Rightarrow> (db, Inl IntegrityError)
            | None \<Rightarrow>
                ((update_session session_id (\<lambda>s. s\<lparr>s_current_round := round_number\<rparr>) db)
                   \<lparr>rounds := rounds db @ [round_entry]\<rparr>,
                 Inr \<lparr>q_round_id = round_id, q_session_id = session_id, q_supplier_id = supp,
                      q_supplier_name = supplier_name supplier,
                      q_offered_price = offered_price, q_total_value = total_value,
                      q_status = ''received'', q_simulated = True,
                      q_items = s_items session\<rparr>)))))"

record counter_response =
  c_round_id :: string
  c_session_id :: string
  c_supplier_id :: string
  c_our_counter_price :: rat
  c_their_response_price :: rat
  c_total_value :: rat
  c_round_number :: int
  c_status :: string
  c_simulated :: bool
  c_discount_requested_percent :: rat

text \<open>The supplier's simulated answer to a counter-offer: the new price and the status.\<close>

definition supplier_response :: "rat \<Rightarrow> rat \<Rightarrow> rat \<Rightarrow> rat \<times> string" where
  "supplier_response their_price counter_price discount_requested =
     (if discount_requested \<le> 5 then (counter_price, ''accepted'')
      else if discount_requested \<le> 10 then
        (py_round2 ((their_price + counter_price) / 2), ''countered'')
      else if discount_requested \<le> 15 then (py_round2 (their_price * (95 / 100)), ''countered'')
      else (py_round2 (their_price * (97 / 100)), ''countered''))"

text \<open>
  \<open>submit_counter\<close>. The counter is written on the supplier's latest round, and the
  answer becomes a new round numbered after that round. An exception raised before the
  commit leaves the database as it was.
\<close>

definition submit_counter ::
  "neg_db \<Rightarrow> string \<Rightarrow> string \<Rightarrow> rat \<Rightarrow> string \<Rightarrow> string \<Rightarrow> time \<Rightarrow> time
     \<Rightarrow> counter_response outcome" where
  "submit_counter db session_id supp counter_price justification uuid_hex now db_now =
    (case find_session db session_id of
       None \<Rightarrow> (db, Inl (SessionNotFound session_id))
     | Some session \<Rightarrow>
    (case latest_round db session_id supp of
       None \<Rightarrow> (db, Inl (NoPreviousRound supp))
     | Some latest \<Rightarrow>
        (let their_price = r_offered_price latest
         in if their_price = 0 then (db, Inl ZeroDivisionError)
            else
              (let discount_requested = (their_price - counter_price) / their_price * 100;
                   (new_offered_price, response_status) =
                     supplier_response their_price counter_price discount_requested
               in case s_items session of
                    [] \<Rightarrow> (db, Inl IndexError)
                  | it # _ \<Rightarrow>
                     (let new_total_value = py_round2 (new_offered_price * of_int (quantity it));
                          new_round_id = ''rnd-'' @ take 8 uuid_hex;
                          new_round_number = r_round_number latest + 1;
                          new_round =
                            \<lparr>r_round_id = new_round_id, r_session_id = session_id,
                             r_supplier_id = supp, r_round_number = new_round_number,
                             r_offer_type = ''counter'', r_offered_price = new_offered_price,
                             r_total_value = new_total_value, r_counter_price = None,
                             r_justification = None, r_status = ''received'',
                             r_response_received_at = Some now, r_created_at = db_now\<rparr>;
                          db1 = update_round (r_round_id latest)
                                  (\<lambda>r. r\<lparr>r_counter_price := Some counter_price,
                                         r_justification := Some justification,
                                         r_status := ''countered''\<rparr>) db;
                          db2 = update_session session_id
                                  (\<lambda>s. s\<lparr>s_current_round := new_round_number\<rparr>) db1
                      in case find_round db new_round_id of
                           Some _ \<Rightarrow> (db, Inl IntegrityError)
                         | None \<Rightarrow>
                             (db2\<lparr>rounds := rounds db2 @ [new_round]\<rparr>,
                              Inr \<lparr>c_round_id = new_round_id, c_session_id = session_id,
                                   c_supplier_id = supp, c_our_counter_price = counter_price,
                                   c_their_response_price = new_offered_price,
                                   c_total_value = new_total_value,
                                   c_round_number = new_round_number,
                                   c_status = response_status, c_simulated = True,
                                   c_discount_requested_percent =
                                     py_round2 discount_requested\<rparr>))))))"

record accept_response =
  a_session_id :: string
  a_status :: string
  a_winning_supplier_id :: string
  a_final_price :: rat
  a_total_value :: rat
  a_items :: "item list"
  a_target_price :: "rat option"
  a_rounds_completed :: int
  a_notes :: "string option"
  a_completed_at :: time

text \<open>\<open>accept_offer\<close>. The session's own status is never read.\<close>

definition accept_offer ::
  "neg_db \<Rightarrow> string \<Rightarrow> string \<Rightarrow> string option \<Rightarrow> time \<Rightarrow> accept_response outcome" where
  "accept_offer db session_id supp notes now =
    (case find_session db session_id of
       None \<Rightarrow> (db, Inl (SessionNotFound session_id))
     | Some session \<Rightarrow>
    (case latest_round db session_id supp of
       None \<Rightarrow> (db, Inl (NoValidOffer supp))
     | Some latest \<Rightarrow>
        if r_offered_price latest = 0 then (db, Inl (NoValidOffer supp))
        else
          (let db1 = update_session session_id
                       (\<lambda>s. s\<lparr>s_status := ''completed'',
                              s_winning_supplier_id := Some supp,
                              s_final_price := Some (r_offered_price latest),
                              s_total_value := Some (r_total_value latest),
                              s_completed_at := Some now\<rparr>) db;
               db2 = update_round (r_round_id latest) (\<lambda>r. r\<lparr>r_status := ''accepted''\<rparr>) db1
           in (db2,
               Inr \<lparr>a_session_id = session_id, a_status = ''completed'',
                    a_winning_supplier_id = supp, a_final_price = r_offered_price latest,
                    a_total_value = r_total_value latest, a_items = s_items session,
                    a_target_price =
                      (if truthy (s_target_price session) then s_target_price session else None),
                    a_rounds_completed = s_current_round session, a_notes = notes,
                    a_completed_at = now\<rparr>))))"

section \<open>Signed tokens\<close>

text \<open>
  The mandate is signed and checked by the PyJWT library (\<open>jwt.encode\<close>, \<open>jwt.decode\<close>
  with RS256). The library is modelled symbolically: a private key is named by a number,
  its public key carries the same number, and a signature records the key that made it and
  the header and payload it was made over. A token whose header or payload was altered
  after signing, or that was signed by another key, therefore fails the signature check,
  and nothing else does. The stored text of a token is this structure.
\<close>

datatype private_key = PrivateKey nat

datatype public_key = PublicKey nat

fun public_key_of :: "private_key \<Rightarrow> public_key" where
  "public_key_of (PrivateKey n) = PublicKey n"

record claims =
  cl_iss :: string
  cl_sub :: string
  cl_aud :: string
  cl_iat :: int
  cl_exp :: int
  cl_jti :: string
  cl_mandate_id :: string
  cl_mandate_type :: string
  cl_amount :: rat
  cl_currency :: string
  cl_order_details :: string
  cl_session_id :: "string option"
  cl_po_number :: "string option"
  cl_user_consent :: bool
  cl_consent_timestamp :: time

record jws_header =
  h_alg :: string
  h_kid :: string

datatype signature = Signature nat jws_header claims

record token =
  t_header :: jws_header
  t_payload :: claims
  t_signature :: signature

fun jwt_encode :: "claims \<Rightarrow> private_key \<Rightarrow> string \<Rightarrow> string \<Rightarrow> token" where
  "jwt_encode payload (PrivateKey n) algorithm kid =
     (let header = \<lparr>h_alg = algorithm, h_kid = kid\<rparr>
      in \<lparr>t_header = header, t_payload = payload, t_signature = Signature n header payload\<rparr>)"

datatype jwt_error =
    InvalidAlgorithmError
  | InvalidSignatureError
  | ImmatureSignatureError
  | ExpiredSignatureError
  | InvalidAudienceError

text \<open>
  \<open>jwt.decode(token, key, algorithms, audience)\<close> read at the library's own clock
  \<open>now\<close> (microseconds, UTC): the algorithm of the header must be allowed, the
  signature must verify, and then the registered claims are validated in the library's
  order: \<open>iat\<close> not in the future, \<open>exp\<close> (whole seconds) not reached, \<open>aud\<close> equal to
  the expected audience.
\<close>

fun signature_valid :: "token \<Rightarrow> public_key \<Rightarrow> bool" where
  "signature_valid tok (PublicKey n) =
     (t_signature tok = Signature n (t_header tok) (t_payload tok))"

definition jwt_decode ::
  "token \<Rightarrow> public_key \<Rightarrow> string list \<Rightarrow> string \<Rightarrow> time \<Rightarrow> jwt_error + claims" where
  "jwt_decode tok key algorithms audience now =
     (let payload = t_payload tok
      in if h_alg (t_header tok) \<notin> set algorithms then Inl InvalidAlgorithmError
         else if \<not> signature_valid tok key then Inl InvalidSignatureError
         else if now < cl_iat payload * 1000000 then Inl ImmatureSignatureError
         else if cl_exp payload * 1000000 \<le> now then Inl ExpiredSignatureError
         else if cl_aud payload \<noteq> audience then Inl InvalidAudienceError
         else Inr payload)"

text \<open>\<open>str(e)\<close> of the library's exceptions.\<close>

fun jwt_error_text :: "jwt_error \<Rightarrow> string" where
  "jwt_error_text InvalidAlgorithmError = ''The specified alg value is not allowed''"
| "jwt_error_text InvalidSignatureError = ''Signature verification failed''"
| "jwt_error_text ImmatureSignatureError = ''The token is not yet valid (iat)''"
| "jwt_error_text ExpiredSignatureError = ''Signature has expired''"
| "jwt_error_text InvalidAudienceError = ''Invalid audience''"

section \<open>AP2Service\<close>

record payment_mandate =
  m_mandate_id :: string
  m_session_id :: "string option"
  m_po_number :: "string option"
  m_supplier_id :: string
  m_amount :: rat
  m_currency :: string
  m_mandate_type :: string
  m_signed_mandate_json :: token
  m_merchant_authorization_json :: "string option"
  m_signature_algorithm :: string
  m_public_key_id :: "string option"
  m_status :: string
  m_created_at :: time
  m_expires_at :: time
  m_executed_at :: "time option"
  m_error_message :: "string option"

text \<open>The tables the payment service reads and writes.\<close>

record pay_db =
  pay_suppliers :: "supplier list"
  mandates :: "payment_mandate list"

text \<open>
  A service instance holds its private key. \<open>posix_of_naive\<close> is the host's reading of a
  naive \<open>datetime\<close> as a POSIX time, which \<open>.timestamp()\<close> performs in the host's local
  zone (the identity on a host whose zone is UTC).
\<close>

record ap2_service =
  private_key :: private_key
  posix_of_naive :: "time \<Rightarrow> time"

definition public_key :: "ap2_service \<Rightarrow> public_key" where
  "public_key svc = public_key_of (private_key svc)"

text \<open>\<open>int(d.timestamp())\<close>: whole seconds, truncated towards zero.\<close>

definition int_timestamp :: "ap2_service \<Rightarrow> time \<Rightarrow> int" where
  "int_timestamp svc t =
     (let us = posix_of_naive svc t
      in if 0 \<le> us then us div 1000000 else - ((- us) div 1000000))"

definition find_mandate :: "pay_db \<Rightarrow> string \<Rightarrow> payment_mandate option" where
  "find_mandate db mid = find (\<lambda>m. m_mandate_id m = mid) (mandates db)"

definition update_mandate ::
  "string \<Rightarrow> (payment_mandate \<Rightarrow> payment_mandate) \<Rightarrow> pay_db \<Rightarrow> pay_db" where
  "update_mandate mid f db =
     db\<lparr>mandates := map (\<lambda>m. if m_mandate_id m = mid then f m else m) (mandates db)\<rparr>"

record mandate_created =
  mc_mandate_id :: string
  mc_signed_mandate :: token
  mc_amount :: rat
  mc_currency :: string
  mc_supplier_id :: string
  mc_expires_at :: time
  mc_status :: string
  mc_session_id :: "string option"
  mc_po_number :: "string option"

text \<open>
  \<open>create_mandate\<close>. The function reads the clock four times with
  \<open>datetime.utcnow()\<close>: for \<open>iat\<close>, for \<open>exp\<close>, for the consent timestamp and, after
  the token is signed, for \<open>expires_at\<close>. \<open>created_at\<close> is not set by the function:
  the database fills it with its own \<open>now()\<close> when the row is inserted.
\<close>

definition create_mandate ::
  "ap2_service \<Rightarrow> pay_db \<Rightarrow> string \<Rightarrow> rat \<Rightarrow> string \<Rightarrow> string \<Rightarrow> string option \<Rightarrow> string option
     \<Rightarrow> bool \<Rightarrow> string \<Rightarrow> time \<Rightarrow> time \<Rightarrow> time \<Rightarrow> time \<Rightarrow> time
     \<Rightarrow> pay_db \<times> (error + mandate_created)" where
  "create_mandate svc db supp amount currency order_details session_id po_number user_consent
     uuid_hex now_iat now_exp now_consent now_expires db_now =
    (if \<not> user_consent then (db, Inl ConsentRequired)
     else
       (case find_supplier (pay_suppliers db) supp of
          None \<Rightarrow> (db, Inl (SupplierNotFound supp))
        | Some _ \<Rightarrow>
           (let mandate_id = ''ap2-'' @ take 10 uuid_hex;
                mandate_payload =
                  \<lparr>cl_iss = ''SupplyMind'', cl_sub = supp, cl_aud = ''ap2-payment-gateway'',
                   cl_iat = int_timestamp svc now_iat,
                   cl_exp = int_timestamp svc (now_exp + hours24),
                   cl_jti = mandate_id, cl_mandate_id = mandate_id,
                   cl_mandate_type = ''checkout'', cl_amount = amount, cl_currency = currency,
                   cl_order_details = order_details, cl_session_id = session_id,
                   cl_po_number = po_number, cl_user_consent = user_consent,
                   cl_consent_timestamp = now_consent\<rparr>;
                signed_mandate =
                  jwt_encode mandate_payload (private_key svc) ''RS256'' ''supplymind-key-001'';
                mandate =
                  \<lparr>m_mandate_id = mandate_id, m_session_id = session_id,
                   m_po_number = po_number, m_supplier_id = supp, m_amount = amount,
                   m_currency = currency, m_mandate_type = ''checkout'',
                   m_signed_mandate_json = signed_mandate,
                   m_merchant_authorization_json = None, m_signature_algorithm = ''RS256'',
                   m_public_key_id = Some ''supplymind-key-001'', m_status = ''created'',
                   m_created_at = db_now, m_expires_at = now_expires + hours24,
                   m_executed_at = None, m_error_message = None\<rparr>
            in case find_mandate db mandate_id of
                 Some _ \<Rightarrow> (db, Inl IntegrityError)
               | None \<Rightarrow>
                   (db\<lparr>mandates := mandates db @ [mandate]\<rparr>,
                    Inr \<lparr>mc_mandate_id = mandate_id, mc_signed_mandate = signed_mandate,
                         mc_amount = amount, mc_currency = currency, mc_supplier_id = supp,
                         mc_expires_at = now_expires + hours24, mc_status = ''created'',
                         mc_session_id = session_id, mc_po_number = po_number\<rparr>))))"

record verify_result =
  v_mandate_id :: string
  v_valid :: bool
  v_error :: "string option"
  v_expired_at :: "time option"
  v_decoded_payload :: "claims option"
  v_status :: "string option"
  v_amount :: "rat option"
  v_currency :: "string option"
  v_supplier_id :: "string option"

definition verify_failure :: "string \<Rightarrow> string \<Rightarrow> time option \<Rightarrow> verify_result" where
  "verify_failure mandate_id msg expired_at =
     \<lparr>v_mandate_id = mandate_id, v_valid = False, v_error = Some msg,
      v_expired_at = expired_at, v_decoded_payload = None, v_status = None, v_amount = None,
      v_currency = None, v_supplier_id = None\<rparr>"

text \<open>
  \<open>verify_mandate\<close>. \<open>now\<close> is the reading of \<open>datetime.utcnow()\<close> for the expiry
  check and \<open>jwt_now\<close> the reading the library takes inside \<open>jwt.decode\<close>. The status
  becomes \<open>verified\<close> inside the branch that stores a merchant authorization.
\<close>

definition verify_mandate ::
  "ap2_service \<Rightarrow> pay_db \<Rightarrow> string \<Rightarrow> string option \<Rightarrow> time \<Rightarrow> time
     \<Rightarrow> pay_db \<times> (error + verify_result)" where
  "verify_mandate svc db mandate_id merchant_authorization now jwt_now =
    (case find_mandate db mandate_id of
       None \<Rightarrow> (db, Inl (MandateNotFound mandate_id))
     | Some mandate \<Rightarrow>
        if m_expires_at mandate < now then
          (update_mandate mandate_id (\<lambda>m. m\<lparr>m_status := ''expired''\<rparr>) db,
           Inr (verify_failure mandate_id ''Mandate expired'' (Some (m_expires_at mandate))))
        else
          (case jwt_decode (m_signed_mandate_json mandate) (public_key svc) [''RS256'']
                  ''ap2-payment-gateway'' jwt_now of
             Inr decoded \<Rightarrow>
               (let db1 =
                      (if truthy_str merchant_authorization then
                         update_mandate mandate_id
                           (\<lambda>m. m\<lparr>m_merchant_authorization_json := merchant_authorization,
                                  m_status := ''verified''\<rparr>) db
                       else db);
                    status1 =
                      (if truthy_str merchant_authorization then ''verified''
                       else m_status mandate)
                in (db1,
                    Inr \<lparr>v_mandate_id = mandate_id, v_valid = True, v_error = None,
                         v_expired_at = None, v_decoded_payload = Some decoded,
                         v_status = Some status1, v_amount = Some (m_amount mandate),
                         v_currency = Some (m_currency mandate),
                         v_supplier_id = Some (m_supplier_id mandate)\<rparr>))
           | Inl ExpiredSignatureError \<Rightarrow>
               (update_mandate mandate_id
                  (\<lambda>m. m\<lparr>m_status := ''expired'',
                         m_error_message := Some ''JWT signature expired''\<rparr>) db,
                Inr (verify_failure mandate_id ''Signature expired'' None))
           | Inl InvalidSignatureError \<Rightarrow>
               (update_mandate mandate_id
                  (\<lambda>m. m\<lparr>m_status := ''failed'',
                         m_error_message := Some ''Invalid JWT signature''\<rparr>) db,
                Inr (verify_failure mandate_id ''Invalid signature'' None))
           | Inl e \<Rightarrow>
               (update_mandate mandate_id
                  (\<lambda>m. m\<lparr>m_status := ''failed'',
                         m_error_message := Some (jwt_error_text e)\<rparr>) db,
                Inr (verify_failure mandate_id (''Verification error: '' @ jwt_error_text e)
                       None))))"

record execute_result =
  e_mandate_id :: string
  e_status :: string
  e_amount :: rat
  e_currency :: string
  e_supplier_id :: string
  e_po_number :: string
  e_executed_at :: time
  e_message :: string

definition mark_executed ::
  "pay_db \<Rightarrow> payment_mandate \<Rightarrow> string \<Rightarrow> time \<Rightarrow> pay_db \<times> (error + execute_result)" where
  "mark_executed db mandate po_number exec_now =
     (update_mandate (m_mandate_id mandate)
        (\<lambda>m. m\<lparr>m_status := ''executed'', m_executed_at := Some exec_now,
               m_po_number := Some po_number\<rparr>) db,
      Inr \<lparr>e_mandate_id = m_mandate_id mandate, e_status = ''executed'',
           e_amount = m_amount mandate, e_currency = m_currency mandate,
           e_supplier_id = m_supplier_id mandate, e_po_number = po_number,
           e_executed_at = exec_now,
           e_message = ''Payment executed successfully (simulated)''\<rparr>)"

text \<open>
  \<open>execute_payment\<close>. A mandate still \<open>created\<close> is verified once, without a merchant
  authorization; what that verification wrote stays written when the payment is refused.
  \<open>exec_now\<close> is the reading of \<open>datetime.utcnow()\<close> that becomes \<open>executed_at\<close>.
\<close>

definition execute_payment ::
  "ap2_service \<Rightarrow> pay_db \<Rightarrow> string \<Rightarrow> string \<Rightarrow> time \<Rightarrow> time \<Rightarrow> time
     \<Rightarrow> pay_db \<times> (error + execute_result)" where
  "execute_payment svc db mandate_id po_number now jwt_now exec_now =
    (case find_mandate db mandate_id of
       None \<Rightarrow> (db, Inl (MandateNotFound mandate_id))
     | Some mandate \<Rightarrow>
        if m_status mandate \<noteq> ''verified'' then
          (if m_status mandate = ''created'' then
             (case verify_mandate svc db mandate_id None now jwt_now of
                (db1, Inl e) \<Rightarrow> (db1, Inl e)
              | (db1, Inr verify_result) \<Rightarrow>
                  if \<not> v_valid verify_result then
                    (db1, Inl (VerificationFailed (case v_error verify_result of
                                                    None \<Rightarrow> ''None'' | Some msg \<Rightarrow> msg)))
                  else mark_executed db1 mandate po_number exec_now)
           else (db, Inl (MustBeVerified (m_status mandate))))
        else mark_executed db mandate po_number exec_now)"

section \<open>Example states\<close>

text \<open>
  A database with two suppliers, one product of unit cost 4.00 and two open sessions: the
  first for 500 units of that product, the second for a SKU that has no product record.
\<close>

definition example_session :: "string \<Rightarrow> item list \<Rightarrow> negotiation_session" where
  "example_session sid items =
     \<lparr>s_session_id = sid, s_status = ''open'', s_items = items, s_target_price = None,
      s_max_rounds = 3, s_current_round = 0, s_winning_supplier_id = None,
      s_final_price = None, s_total_value = None, s_created_at = 0, s_completed_at = None,
      s_created_by = ''NegotiationAgent''\<rparr>"

definition example_db :: neg_db where
  "example_db =
     \<lparr>suppliers = [\<lparr>supplier_id = ''SUP-A'', supplier_name = ''Acme''\<rparr>,
                  \<lparr>supplier_id = ''SUP-B'', supplier_name = ''Bolt''\<rparr>],
      products = [\<lparr>asin = ''B001'', unit_cost = Some 4\<rparr>],
      sessions = [example_session ''neg-00000001'' [\<lparr>sku = ''B001'', quantity = 500\<rparr>],
                  example_session ''neg-00000002'' [\<lparr>sku = ''Z999'', quantity = 10\<rparr>]],
      rounds = []\<rparr>"

text \<open>
  The first session after three quotes: one from the second supplier (4.40, round 1), then
  two from the first supplier (4.50, round 2 and 4.40, round 3).
\<close>

definition quoted_b :: neg_db where
  "quoted_b = fst (request_quote example_db ''neg-00000001'' ''SUP-B'' ''medium'' (11 / 10)
                     ''b1b1b1b1'' 100 100)"

definition quoted_ba :: neg_db where
  "quoted_ba = fst (request_quote quoted_b ''neg-00000001'' ''SUP-A'' ''medium'' (9 / 8)
                      ''a1a1a1a1'' 200 200)"

definition quoted_baa :: neg_db where
  "quoted_baa = fst (request_quote quoted_ba ''neg-00000001'' ''SUP-A'' ''medium'' (11 / 10)
                       ''a2a2a2a2'' 300 300)"

text \<open>The state after the first supplier's offer is accepted, once two suppliers have quoted.\<close>

definition accepted_a :: neg_db where
  "accepted_a = fst (accept_offer quoted_ba ''neg-00000001'' ''SUP-A'' None 500)"

text \<open>
  A payment service on a host whose zone is UTC, and a mandate of 2200.00 USD for the first
  supplier. The clock reads 1.999 s when the claims are built, 2.001 s when \<open>expires_at\<close>
  is computed after signing, and the database inserts the row at 2.003 s.
\<close>

definition example_service :: ap2_service where
  "example_service = \<lparr>private_key = PrivateKey 1, posix_of_naive = (\<lambda>t. t)\<rparr>"

definition example_pay_db :: pay_db where
  "example_pay_db =
     \<lparr>pay_suppliers = [\<lparr>supplier_id = ''SUP-A'', supplier_name = ''Acme''\<rparr>,
                      \<lparr>supplier_id = ''SUP-B'', supplier_name = ''Bolt''\<rparr>],
      mandates = []\<rparr>"

definition mandate_db :: pay_db where
  "mandate_db = fst (create_mandate example_service example_pay_db ''SUP-A'' 2200 ''USD''
                       ''{}'' (Some ''neg-00000001'') None True ''0123456789abcdef''
                       1999000 1999000 1999000 2001000 2003000)"

text \<open>The same mandate with its stored token altered after signing: the amount is raised.\<close>

definition tampered_db :: pay_db where
  "tampered_db =
     update_mandate ''ap2-0123456789''
       (\<lambda>m. m\<lparr>m_signed_mandate_json :=
                 (m_signed_mandate_json m)
                   \<lparr>t_payload := (t_payload (m_signed_mandate_json m))\<lparr>cl_amount := 9900\<rparr>\<rparr>\<rparr>)
       mandate_db"

section \<open>Queries and updates\<close>




lemma find_map_update:
  assumes "find (\<lambda>x. key x = k) xs = Some s" and "\<And>x. key (f x) = key x"
  shows "find (\<lambda>x. key x = k) (map (\<lambda>x. if key x = k then f x else x) xs) = Some (f s)"
  using assms(1) by (induction xs) (auto simp: assms(2))

lemma find_snoc:
  "find P (xs @ [x]) =
     (case find P xs of None \<Rightarrow> (if P x then Some x else None) | Some y \<Rightarrow> Some y)"
  by (induction xs) auto

lemma find_session_update:
  assumes "find_session db sid = Some s" and "\<And>x. s_session_id (f x) = s_session_id x"
  shows "find_session (update_session sid f db) sid = Some (f s)"
  using assms unfolding find_session_def update_session_def
  by (simp add: find_map_update [where key = s_session_id])

lemma find_session_rounds [simp]:
  "find_session (db\<lparr>rounds := rs\<rparr>) sid = find_session db sid"
  by (simp add: find_session_def)

lemma find_session_update_round [simp]:
  "find_session (update_round rid f db) sid = find_session db sid"
  by (simp add: find_session_def update_round_def)

lemma find_mandate_update:
  assumes "find_mandate db mid = Some m" and "\<And>x. m_mandate_id (f x) = m_mandate_id x"
  shows "find_mandate (update_mandate mid f db) mid = Some (f m)"
  using assms unfolding find_mandate_def update_mandate_def
  by (simp add: find_map_update [where key = m_mandate_id])

lemma find_mandate_id: "find_mandate db mid = Some m \<Longrightarrow> m_mandate_id m = mid"
  unfolding find_mandate_def by (induction "mandates db" arbitrary: db) (auto simp: find_Some_iff)

lemma signature_valid_encode:
  "signature_valid (jwt_encode payload key algorithm kid) (public_key_of key)"
  by (cases key) (simp add: Let_def)

lemma jwt_encode_fields:
  "t_payload (jwt_encode payload key algorithm kid) = payload"
  "h_alg (t_header (jwt_encode payload key algorithm kid)) = algorithm"
  by (cases key; simp add: Let_def)+

section \<open>RequestQuote: the fallback base price\<close>



section \<open>SubmitCounter: the supplier's decision table\<close>



section \<open>AcceptOffer: a second acceptance\<close>

text \<open>
  Claim C5 says that once AcceptOffer has succeeded on a session, every later AcceptOffer
  on that session fails and leaves the final price unchanged. It does not hold: with offers
  of 4.50 and 4.40 on the table, accepting the first supplier's 4.50 succeeds and closes
  the session (with status \<open>completed\<close>), and accepting the second supplier's 4.40
  afterwards succeeds as well and overwrites the final price.
\<close>

theorem accept_offer_repeat_counterexample:
  "\<not> isl (snd (accept_offer quoted_ba ''neg-00000001'' ''SUP-A'' None 500))
   \<and> map_option s_status (find_session accepted_a ''neg-00000001'') = Some ''completed''
   \<and> map_option s_final_price (find_session accepted_a ''neg-00000001'') = Some (Some (9 / 2))
   \<and> \<not> isl (snd (accept_offer accepted_a ''neg-00000001'' ''SUP-B'' None 600))
   \<and> map_option s_final_price
        (find_session (fst (accept_offer accepted_a ''neg-00000001'' ''SUP-B'' None 600))
           ''neg-00000001'') = Some (Some (22 / 5))"
  by code_simp

text \<open>
  Claim C5, amended. AcceptOffer never reads the session's status. On an existing session,
  whatever its status, it fails with the no-valid-offer error and changes nothing when the
  supplier has no round in the session or the supplier's latest round offers the price 0;
  otherwise it succeeds, and the session is stored with status \<open>completed\<close>, the supplier
  as winner, the latest round's offered price as final price, its total as total value, and
  the completion time.
\<close>

theorem accept_offer_ignores_status:
  assumes "find_session db sid = Some s"
  shows "(latest_round db sid supp = None \<longrightarrow>
            accept_offer db sid supp notes now = (db, Inl (NoValidOffer supp)))
       \<and> (\<forall>r. latest_round db sid supp = Some r \<and> r_offered_price r = 0 \<longrightarrow>
            accept_offer db sid supp notes now = (db, Inl (NoValidOffer supp)))
       \<and> (\<forall>r. latest_round db sid supp = Some r \<and> r_offered_price r \<noteq> 0 \<longrightarrow>
            (\<exists>db' resp. accept_offer db sid supp notes now = (db', Inr resp)
               \<and> a_status resp = ''completed'' \<and> a_final_price resp = r_offered_price r
               \<and> find_session db' sid =
                   Some (s\<lparr>s_status := ''completed'', s_winning_supplier_id := Some supp,
                           s_final_price := Some (r_offered_price r),
                           s_total_value := Some (r_total_value r),
                           s_completed_at := Some now\<rparr>)))"
  using assms by (auto simp: accept_offer_def Let_def find_session_update)

theorem accept_offer_ignores_status_witness:
  "\<exists>db' resp. accept_offer accepted_a ''neg-00000001'' ''SUP-B'' None 600 = (db', Inr resp)
     \<and> a_status resp = ''completed'' \<and> a_final_price resp = 22 / 5
     \<and> map_option s_final_price (find_session db' ''neg-00000001'') = Some (Some (22 / 5))"
proof -
  let ?s = "(example_session ''neg-00000001'' [\<lparr>sku = ''B001'', quantity = 500\<rparr>])
              \<lparr>s_status := ''completed'', s_current_round := 2,
               s_winning_supplier_id := Some ''SUP-A'', s_final_price := Some (9 / 2),
               s_total_value := Some 2250, s_completed_at := Some 500\<rparr>"
  let ?r = "\<lparr>r_round_id = ''rnd-b1b1b1b1'', r_session_id = ''neg-00000001'',
             r_supplier_id = ''SUP-B'', r_round_number = 1, r_offer_type = ''initial'',
             r_offered_price = 22 / 5, r_total_value = 2200, r_counter_price = None,
             r_justification = None, r_status = ''received'',
             r_response_received_at = Some 100, r_created_at = 100\<rparr>"
  have h1: "find_session accepted_a ''neg-00000001'' = Some ?s"
    by code_simp
  have h2: "latest_round accepted_a ''neg-00000001'' ''SUP-B'' = Some ?r"
    by code_simp
  from accept_offer_ignores_status [OF h1, of "''SUP-B''" None 600] h2
  obtain db' resp where
    "accept_offer accepted_a ''neg-00000001'' ''SUP-B'' None 600 = (db', Inr resp)"
    "a_status resp = ''completed''" "a_final_price resp = r_offered_price ?r"
    "find_session db' ''neg-00000001'' =
       Some (?s\<lparr>s_status := ''completed'', s_winning_supplier_id := Some ''SUP-B'',
                s_final_price := Some (r_offered_price ?r),
                s_total_value := Some (r_total_value ?r), s_completed_at := Some 600\<rparr>)"
    by auto
  then show ?thesis
    by (intro exI [of _ db'] exI [of _ resp]) simp
qed

section \<open>CreateSession: no validation of the items\<close>




section \<open>The round counter of a session\<close>

text \<open>
  Claim C8 says that over any sequence of RequestQuote and SubmitCounter operations the
  session's current round never decreases and equals the highest round number issued so
  far. It does not hold: after quotes numbered 1 (second supplier), 2 and 3 (first
  supplier) the current round is 3; a counter-offer to the second supplier is then answered
  in a round numbered 2, and the current round falls to 2 while a round numbered 3 exists.
\<close>

theorem current_round_counterexample:
  "map_option s_current_round (find_session quoted_baa ''neg-00000001'') = Some 3
   \<and> \<not> isl (snd (submit_counter quoted_baa ''neg-00000001'' ''SUP-B'' (43 / 10) ''volume''
                    ''b2b2b2b2'' 400 400))
   \<and> map_option s_current_round
        (find_session (fst (submit_counter quoted_baa ''neg-00000001'' ''SUP-B'' (43 / 10)
                              ''volume'' ''b2b2b2b2'' 400 400)) ''neg-00000001'') = Some 2
   \<and> map r_round_number
        (rounds (fst (submit_counter quoted_baa ''neg-00000001'' ''SUP-B'' (43 / 10)
                        ''volume'' ''b2b2b2b2'' 400 400))) = [1, 2, 3, 2]"
  by code_simp

text \<open>
  Claim C8, amended. After every successful RequestQuote or SubmitCounter the session's
  current round equals the round number of the round that operation issued. RequestQuote
  numbers its round one after the session's current round, so it raises the counter by
  one; SubmitCounter numbers its round one after the latest round of the supplier it
  addresses, whatever the session's current round was.
\<close>

theorem current_round_is_issued_round:
  "(\<forall>db' q. request_quote db sid supp urgency markup uuid_hex now db_now = (db', Inr q) \<longrightarrow>
      (\<exists>s s' new. find_session db sid = Some s \<and> find_session db' sid = Some s'
          \<and> s_current_round s' = s_current_round s + 1
          \<and> new \<in> set (rounds db') \<and> r_round_id new = q_round_id q
          \<and> r_session_id new = sid \<and> r_round_number new = s_current_round s'))
   \<and> (\<forall>db' resp. submit_counter db sid supp c j uuid_hex now db_now = (db', Inr resp) \<longrightarrow>
      (\<exists>r s' new. latest_round db sid supp = Some r \<and> find_session db' sid = Some s'
          \<and> s_current_round s' = r_round_number r + 1
          \<and> new \<in> set (rounds db') \<and> r_round_id new = c_round_id resp
          \<and> r_session_id new = sid \<and> r_round_number new = s_current_round s'))"
proof (intro conjI allI impI)
  fix db' q
  assume run: "request_quote db sid supp urgency markup uuid_hex now db_now = (db', Inr q)"
  then obtain s where s: "find_session db sid = Some s"
    by (auto simp: request_quote_def split: option.splits)
  let ?s' = "s\<lparr>s_current_round := s_current_round s + 1\<rparr>"
  let ?new = "last (rounds db')"
  from run s have "find_session db' sid = Some ?s' \<and> rounds db' \<noteq> []
      \<and> r_round_id ?new = q_round_id q \<and> r_session_id ?new = sid
      \<and> r_round_number ?new = s_current_round s + 1"
    by (auto simp: request_quote_def Let_def find_session_update
             split: option.splits list.splits)
  with s show "\<exists>s s' new. find_session db sid = Some s \<and> find_session db' sid = Some s'
          \<and> s_current_round s' = s_current_round s + 1
          \<and> new \<in> set (rounds db') \<and> r_round_id new = q_round_id q
          \<and> r_session_id new = sid \<and> r_round_number new = s_current_round s'"
    by (intro exI [of _ s] exI [of _ ?s'] exI [of _ ?new]) simp
next
  fix db' resp
  assume run: "submit_counter db sid supp c j uuid_hex now db_now = (db', Inr resp)"
  then obtain s where s: "find_session db sid = Some s"
    by (auto simp: submit_counter_def split: option.splits)
  from run s obtain r where r: "latest_round db sid supp = Some r"
    by (auto simp: submit_counter_def split: option.splits)
  let ?s' = "s\<lparr>s_current_round := r_round_number r + 1\<rparr>"
  let ?new = "last (rounds db')"
  from run s r have "find_session db' sid = Some ?s' \<and> rounds db' \<noteq> []
      \<and> r_round_id ?new = c_round_id resp \<and> r_session_id ?new = sid
      \<and> r_round_number ?new = r_round_number r + 1"
    by (auto simp: submit_counter_def Let_def find_session_update
             split: option.splits list.splits if_splits prod.splits)
  with r show "\<exists>r s' new. latest_round db sid supp = Some r \<and> find_session db' sid = Some s'
          \<and> s_current_round s' = r_round_number r + 1
          \<and> new \<in> set (rounds db') \<and> r_round_id new = c_round_id resp
          \<and> r_session_id new = sid \<and> r_round_number new = s_current_round s'"
    by (intro exI [of _ r] exI [of _ ?s'] exI [of _ ?new]) simp
qed

theorem current_round_is_issued_round_witness:
  "\<exists>r s' new. latest_round quoted_baa ''neg-00000001'' ''SUP-B'' = Some r
     \<and> find_session (fst (submit_counter quoted_baa ''neg-00000001'' ''SUP-B'' (43 / 10)
                            ''volume'' ''b2b2b2b2'' 400 400)) ''neg-00000001'' = Some s'
     \<and> s_current_round s' = r_round_number r + 1
     \<and> new \<in> set (rounds (fst (submit_counter quoted_baa ''neg-00000001'' ''SUP-B'' (43 / 10)
                                 ''volume'' ''b2b2b2b2'' 400 400)))
     \<and> r_round_number new = s_current_round s'"
proof -
  let ?run = "submit_counter quoted_baa ''neg-00000001'' ''SUP-B'' (43 / 10) ''volume''
                ''b2b2b2b2'' 400 400"
  have "\<not> isl (snd ?run)"
    by code_simp
  then have run: "?run = (fst ?run, Inr (projr (snd ?run)))"
    by (simp add: prod_eq_iff)
  from current_round_is_issued_round
         [of quoted_baa "''neg-00000001''" "''SUP-B''" _ _ "''b2b2b2b2''" 400 400
             "43 / 10" "''volume''"] run
  show ?thesis
    by blast
qed

section \<open>CreateMandate: consent and expiry\<close>

text \<open>
  Claim C2 says that a mandate created with consent expires exactly 24 hours after its
  \<open>created_at\<close>. It does not hold: \<open>expires_at\<close> is the service's own clock reading
  plus 24 hours, while \<open>created_at\<close> is filled in by the database when the row is
  inserted. In the example the service reads 2.001 s and the database inserts at 2.003 s.
\<close>

theorem create_mandate_expiry_counterexample:
  "\<not> isl (snd (create_mandate example_service example_pay_db ''SUP-A'' 2200 ''USD''
                  ''{}'' (Some ''neg-00000001'') None True ''0123456789abcdef''
                  1999000 1999000 1999000 2001000 2003000))
   \<and> map_option m_status (find_mandate mandate_db ''ap2-0123456789'') = Some ''created''
   \<and> map_option m_created_at (find_mandate mandate_db ''ap2-0123456789'') = Some 2003000
   \<and> map_option m_expires_at (find_mandate mandate_db ''ap2-0123456789'')
        = Some (2001000 + hours24)
   \<and> map_option m_expires_at (find_mandate mandate_db ''ap2-0123456789'')
        \<noteq> map_option (\<lambda>m. m_created_at m + hours24) (find_mandate mandate_db ''ap2-0123456789'')"
  by code_simp

text \<open>
  Claim C2, amended. Without consent CreateMandate fails with the consent error and the
  database is unchanged. With consent, an existing supplier and an unused mandate
  identifier it succeeds; the stored mandate has status \<open>created\<close>, its \<open>expires_at\<close>
  is the service's clock reading plus exactly 24 hours, and its \<open>created_at\<close> is the
  database's own insertion time.
\<close>

theorem create_mandate_consent:
  "(\<not> user_consent \<longrightarrow>
      create_mandate svc db supp amount currency order_details session_id po_number
        user_consent uuid_hex now_iat now_exp now_consent now_expires db_now
        = (db, Inl ConsentRequired))
   \<and> (user_consent \<and> find_supplier (pay_suppliers db) supp \<noteq> None
        \<and> find_mandate db (''ap2-'' @ take 10 uuid_hex) = None \<longrightarrow>
      (\<exists>db' res m.
          create_mandate svc db supp amount currency order_details session_id po_number
            user_consent uuid_hex now_iat now_exp now_consent now_expires db_now
            = (db', Inr res)
        \<and> mc_status res = ''created''
        \<and> find_mandate db' (mc_mandate_id res) = Some m
        \<and> m_status m = ''created''
        \<and> m_expires_at m = now_expires + hours24
        \<and> m_created_at m = db_now))"
  by (auto simp: create_mandate_def Let_def find_mandate_def find_snoc)

theorem create_mandate_consent_witness:
  "create_mandate example_service example_pay_db ''SUP-A'' 2200 ''USD'' ''{}''
     (Some ''neg-00000001'') None False ''0123456789abcdef''
     1999000 1999000 1999000 2001000 2003000 = (example_pay_db, Inl ConsentRequired)
   \<and> (\<exists>db' res m.
          create_mandate example_service example_pay_db ''SUP-A'' 2200 ''USD'' ''{}''
            (Some ''neg-00000001'') None True ''0123456789abcdef''
            1999000 1999000 1999000 2001000 2003000 = (db', Inr res)
        \<and> mc_status res = ''created''
        \<and> find_mandate db' (mc_mandate_id res) = Some m
        \<and> m_status m = ''created''
        \<and> m_expires_at m = 2001000 + hours24
        \<and> m_created_at m = 2003000)"
proof -
  have sup: "find_supplier (pay_suppliers example_pay_db) ''SUP-A'' \<noteq> None"
    by code_simp
  have fresh: "find_mandate example_pay_db (''ap2-'' @ take 10 ''0123456789abcdef'') = None"
    by code_simp
  have refused: "create_mandate example_service example_pay_db ''SUP-A'' 2200 ''USD'' ''{}''
     (Some ''neg-00000001'') None False ''0123456789abcdef''
     1999000 1999000 1999000 2001000 2003000 = (example_pay_db, Inl ConsentRequired)"
    using create_mandate_consent
      [of False example_service example_pay_db "''SUP-A''" 2200 "''USD''" "''{}''"
          "Some ''neg-00000001''" None "''0123456789abcdef''"
          1999000 1999000 1999000 2001000 2003000]
    by simp
  from create_mandate_consent
      [of True example_service example_pay_db "''SUP-A''" 2200 "''USD''" "''{}''"
          "Some ''neg-00000001''" None "''0123456789abcdef''"
          1999000 1999000 1999000 2001000 2003000] sup fresh
  have "\<exists>db' res m.
          create_mandate example_service example_pay_db ''SUP-A'' 2200 ''USD'' ''{}''
            (Some ''neg-00000001'') None True ''0123456789abcdef''
            1999000 1999000 1999000 2001000 2003000 = (db', Inr res)
        \<and> mc_status res = ''created''
        \<and> find_mandate db' (mc_mandate_id res) = Some m
        \<and> m_status m = ''created''
        \<and> m_expires_at m = 2001000 + hours24
        \<and> m_created_at m = 2003000"
    by blast
  with refused show ?thesis
    by blast
qed

section \<open>VerifyMandate\<close>



text \<open>
  Claim C4 says that verifying an unexpired mandate whose token passes the signature and
  audience checks sets the status to \<open>verified\<close>. It does not hold: without a merchant
  authorization the answer is valid and the status stays \<open>created\<close>. Nor is the answer
  always valid: the token's own \<open>exp\<close>, in whole seconds from an earlier clock reading,
  can be reached while \<open>expires_at\<close> is not.
\<close>

theorem verify_status_counterexample:
  "map_option (\<lambda>m. signature_valid (m_signed_mandate_json m) (public_key example_service))
       (find_mandate mandate_db ''ap2-0123456789'') = Some True
   \<and> map_option (\<lambda>m. cl_aud (t_payload (m_signed_mandate_json m)))
       (find_mandate mandate_db ''ap2-0123456789'') = Some ''ap2-payment-gateway''
   \<and> map_option m_expires_at (find_mandate mandate_db ''ap2-0123456789'') = Some 86402001000
   \<and> map_sum id v_valid
       (snd (verify_mandate example_service mandate_db ''ap2-0123456789'' None
               5000000 5000000)) = Inr True
   \<and> map_option m_status
       (find_mandate (fst (verify_mandate example_service mandate_db ''ap2-0123456789'' None
                             5000000 5000000)) ''ap2-0123456789'') = Some ''created''
   \<and> map_sum id v_valid
       (snd (verify_mandate example_service mandate_db ''ap2-0123456789'' None
               86402000500 86402000500)) = Inr False"
  by code_simp

text \<open>
  Claim C4, amended. On an existing mandate whose \<open>expires_at\<close> is not passed: if the
  token is an RS256 token whose signature verifies against the service's public key, whose
  audience is the gateway identifier and whose \<open>iat\<close> and \<open>exp\<close> claims hold at the
  library's clock, the answer is valid and carries the decoded payload, and the status
  becomes \<open>verified\<close> when a non-empty merchant authorization is passed and is left as
  it was otherwise; if the signature does not verify, the mandate is stored as \<open>failed\<close>
  with an error message and the answer is not valid.
\<close>

theorem verify_mandate_outcomes:
  assumes "find_mandate db mid = Some m"
    and "\<not> m_expires_at m < now"
    and "tok = m_signed_mandate_json m"
  shows "(h_alg (t_header tok) = ''RS256'' \<and> signature_valid tok (public_key svc)
          \<and> cl_aud (t_payload tok) = ''ap2-payment-gateway''
          \<and> cl_iat (t_payload tok) * 1000000 \<le> jwt_now
          \<and> jwt_now < cl_exp (t_payload tok) * 1000000 \<longrightarrow>
          (\<exists>db' res. verify_mandate svc db mid merchant_authorization now jwt_now = (db', Inr res)
             \<and> v_valid res \<and> v_decoded_payload res = Some (t_payload tok)
             \<and> find_mandate db' mid =
                 Some (if truthy_str merchant_authorization
                       then m\<lparr>m_merchant_authorization_json := merchant_authorization,
                              m_status := ''verified''\<rparr>
                       else m)))
       \<and> (h_alg (t_header tok) = ''RS256'' \<and> \<not> signature_valid tok (public_key svc) \<longrightarrow>
          (\<exists>db' res. verify_mandate svc db mid merchant_authorization now jwt_now = (db', Inr res)
             \<and> \<not> v_valid res \<and> v_error res = Some ''Invalid signature''
             \<and> find_mandate db' mid =
                 Some (m\<lparr>m_status := ''failed'',
                         m_error_message := Some ''Invalid JWT signature''\<rparr>)))"
  using assms
  by (auto simp: verify_mandate_def jwt_decode_def Let_def verify_failure_def
                 find_mandate_update)

theorem verify_mandate_outcomes_witness:
  "(\<exists>db' res. verify_mandate example_service mandate_db ''ap2-0123456789''
                  (Some ''merchant-signature'') 5000000 5000000 = (db', Inr res)
      \<and> v_valid res
      \<and> map_option m_status (find_mandate db' ''ap2-0123456789'') = Some ''verified'')
   \<and> (\<exists>db' res. verify_mandate example_service tampered_db ''ap2-0123456789''
                  None 5000000 5000000 = (db', Inr res)
      \<and> \<not> v_valid res
      \<and> map_option m_status (find_mandate db' ''ap2-0123456789'') = Some ''failed'')"
proof -
  let ?m = "the (find_mandate mandate_db ''ap2-0123456789'')"
  let ?t = "the (find_mandate tampered_db ''ap2-0123456789'')"
  have "find_mandate mandate_db ''ap2-0123456789'' \<noteq> None"
    by code_simp
  then have m1: "find_mandate mandate_db ''ap2-0123456789'' = Some ?m"
    by simp
  have m2: "\<not> m_expires_at ?m < 5000000"
    by code_simp
  have good: "h_alg (t_header (m_signed_mandate_json ?m)) = ''RS256''
      \<and> signature_valid (m_signed_mandate_json ?m) (public_key example_service)
      \<and> cl_aud (t_payload (m_signed_mandate_json ?m)) = ''ap2-payment-gateway''
      \<and> cl_iat (t_payload (m_signed_mandate_json ?m)) * 1000000 \<le> 5000000
      \<and> 5000000 < cl_exp (t_payload (m_signed_mandate_json ?m)) * 1000000"
    by code_simp
  have auth: "truthy_str (Some ''merchant-signature'')"
    by (simp add: truthy_str_def)
  from verify_mandate_outcomes [OF m1 m2 refl, of example_service 5000000
         "Some ''merchant-signature''"] good auth
  have a: "\<exists>db' res. verify_mandate example_service mandate_db ''ap2-0123456789''
                  (Some ''merchant-signature'') 5000000 5000000 = (db', Inr res)
      \<and> v_valid res
      \<and> map_option m_status (find_mandate db' ''ap2-0123456789'') = Some ''verified''"
    by auto
  have "find_mandate tampered_db ''ap2-0123456789'' \<noteq> None"
    by code_simp
  then have t1: "find_mandate tampered_db ''ap2-0123456789'' = Some ?t"
    by simp
  have t2: "\<not> m_expires_at ?t < 5000000"
    by code_simp
  have bad: "h_alg (t_header (m_signed_mandate_json ?t)) = ''RS256''
      \<and> \<not> signature_valid (m_signed_mandate_json ?t) (public_key example_service)"
    by code_simp
  from verify_mandate_outcomes [OF t1 t2 refl, of example_service 5000000 None] bad
  have b: "\<exists>db' res. verify_mandate example_service tampered_db ''ap2-0123456789''
                  None 5000000 5000000 = (db', Inr res)
      \<and> \<not> v_valid res
      \<and> map_option m_status (find_mandate db' ''ap2-0123456789'') = Some ''failed''"
    by auto
  from a b show ?thesis
    by blast
qed

section \<open>ExecutePayment\<close>

text \<open>
  Claim C3. ExecutePayment fails with the not-found error when the mandate is absent. It
  succeeds when the status is \<open>verified\<close>, and when the status is \<open>created\<close> and the
  one automatic verification it performs answers valid; when that verification answers
  not valid the payment is refused. In every other status it fails with the
  must-be-verified error. A success stores the mandate as \<open>executed\<close> with the
  execution time and the purchase order number passed, and there is no other success.
\<close>

theorem execute_payment_outcomes:
  "(find_mandate db mid = None \<longrightarrow>
      execute_payment svc db mid po now jwt_now exec_now = (db, Inl (MandateNotFound mid)))
   \<and> (\<forall>m. find_mandate db mid = Some m \<and> m_status m = ''verified'' \<longrightarrow>
        (\<exists>db' res. execute_payment svc db mid po now jwt_now exec_now = (db', Inr res)
           \<and> e_status res = ''executed'' \<and> e_po_number res = po
           \<and> find_mandate db' mid =
               Some (m\<lparr>m_status := ''executed'', m_executed_at := Some exec_now,
                       m_po_number := Some po\<rparr>)))
   \<and> (\<forall>m db1 vr. find_mandate db mid = Some m \<and> m_status m = ''created''
          \<and> verify_mandate svc db mid None now jwt_now = (db1, Inr vr) \<and> v_valid vr \<longrightarrow>
        (\<exists>db' res. execute_payment svc db mid po now jwt_now exec_now = (db', Inr res)
           \<and> e_status res = ''executed'' \<and> e_po_number res = po
           \<and> find_mandate db' mid =
               Some (m\<lparr>m_status := ''executed'', m_executed_at := Some exec_now,
                       m_po_number := Some po\<rparr>)))
   \<and> (\<forall>m db1 vr. find_mandate db mid = Some m \<and> m_status m = ''created''
          \<and> verify_mandate svc db mid None now jwt_now = (db1, Inr vr) \<and> \<not> v_valid vr \<longrightarrow>
        (\<exists>msg. execute_payment svc db mid po now jwt_now exec_now
                  = (db1, Inl (VerificationFailed msg))))
   \<and> (\<forall>m. find_mandate db mid = Some m \<and> m_status m \<noteq> ''verified''
          \<and> m_status m \<noteq> ''created'' \<longrightarrow>
        execute_payment svc db mid po now jwt_now exec_now
          = (db, Inl (MustBeVerified (m_status m))))
   \<and> (\<forall>db' res. execute_payment svc db mid po now jwt_now exec_now = (db', Inr res) \<longrightarrow>
        (\<exists>m. find_mandate db mid = Some m
           \<and> (m_status m = ''verified''
              \<or> (m_status m = ''created''
                 \<and> (\<exists>db1 vr. verify_mandate svc db mid None now jwt_now = (db1, Inr vr)
                       \<and> v_valid vr)))))"
proof (intro conjI allI impI)
  assume "find_mandate db mid = None"
  then show "execute_payment svc db mid po now jwt_now exec_now = (db, Inl (MandateNotFound mid))"
    by (simp add: execute_payment_def)
next
  fix m
  assume a: "find_mandate db mid = Some m \<and> m_status m = ''verified''"
  then have id: "m_mandate_id m = mid" using find_mandate_id by blast
  from a id show "\<exists>db' res. execute_payment svc db mid po now jwt_now exec_now = (db', Inr res)
           \<and> e_status res = ''executed'' \<and> e_po_number res = po
           \<and> find_mandate db' mid =
               Some (m\<lparr>m_status := ''executed'', m_executed_at := Some exec_now,
                       m_po_number := Some po\<rparr>)"
    by (simp add: execute_payment_def mark_executed_def find_mandate_update)
next
  fix m db1 vr
  assume a: "find_mandate db mid = Some m \<and> m_status m = ''created''
          \<and> verify_mandate svc db mid None now jwt_now = (db1, Inr vr) \<and> v_valid vr"
  then have id: "m_mandate_id m = mid" using find_mandate_id by blast
  from a have same: "db1 = db"
    by (auto simp: verify_mandate_def verify_failure_def truthy_str_def Let_def
             split: if_splits sum.splits jwt_error.splits)
  from a id same show "\<exists>db' res. execute_payment svc db mid po now jwt_now exec_now = (db', Inr res)
           \<and> e_status res = ''executed'' \<and> e_po_number res = po
           \<and> find_mandate db' mid =
               Some (m\<lparr>m_status := ''executed'', m_executed_at := Some exec_now,
                       m_po_number := Some po\<rparr>)"
    by (simp add: execute_payment_def mark_executed_def find_mandate_update)
next
  fix m db1 vr
  assume a: "find_mandate db mid = Some m \<and> m_status m = ''created''
          \<and> verify_mandate svc db mid None now jwt_now = (db1, Inr vr) \<and> \<not> v_valid vr"
  then show "\<exists>msg. execute_payment svc db mid po now jwt_now exec_now
                  = (db1, Inl (VerificationFailed msg))"
    by (simp add: execute_payment_def)
next
  fix m
  assume "find_mandate db mid = Some m \<and> m_status m \<noteq> ''verified'' \<and> m_status m \<noteq> ''created''"
  then show "execute_payment svc db mid po now jwt_now exec_now
          = (db, Inl (MustBeVerified (m_status m)))"
    by (simp add: execute_payment_def)
next
  fix db' res
  assume run: "execute_payment svc db mid po now jwt_now exec_now = (db', Inr res)"
  then obtain m where m: "find_mandate db mid = Some m"
    by (auto simp: execute_payment_def split: option.splits)
  from run m show "\<exists>m. find_mandate db mid = Some m
           \<and> (m_status m = ''verified''
              \<or> (m_status m = ''created''
                 \<and> (\<exists>db1 vr. verify_mandate svc db mid None now jwt_now = (db1, Inr vr)
                       \<and> v_valid vr)))"
    by (auto simp: execute_payment_def split: if_splits prod.splits sum.splits)
qed

theorem execute_payment_outcomes_witness:
  "execute_payment example_service example_pay_db ''ap2-0123456789'' ''PO-1''
     5000000 5000000 5000100 = (example_pay_db, Inl (MandateNotFound ''ap2-0123456789''))
   \<and> (\<exists>db' res. execute_payment example_service mandate_db ''ap2-0123456789'' ''PO-1''
                    5000000 5000000 5000100 = (db', Inr res)
        \<and> e_status res = ''executed'' \<and> e_po_number res = ''PO-1''
        \<and> map_option m_status (find_mandate db' ''ap2-0123456789'') = Some ''executed''
        \<and> map_option m_executed_at (find_mandate db' ''ap2-0123456789'') = Some (Some 5000100)
        \<and> map_option m_po_number (find_mandate db' ''ap2-0123456789'') = Some (Some ''PO-1''))"
proof -
  let ?m = "the (find_mandate mandate_db ''ap2-0123456789'')"
  let ?v = "verify_mandate example_service mandate_db ''ap2-0123456789'' None 5000000 5000000"
  have none: "find_mandate example_pay_db ''ap2-0123456789'' = None"
    by code_simp
  have a: "execute_payment example_service example_pay_db ''ap2-0123456789'' ''PO-1''
     5000000 5000000 5000100 = (example_pay_db, Inl (MandateNotFound ''ap2-0123456789''))"
    using execute_payment_outcomes
      [of example_pay_db "''ap2-0123456789''" example_service "''PO-1''"
          5000000 5000000 5000100] none
    by blast
  have "find_mandate mandate_db ''ap2-0123456789'' \<noteq> None"
    by code_simp
  then have m1: "find_mandate mandate_db ''ap2-0123456789'' = Some ?m"
    by simp
  have m2: "m_status ?m = ''created''"
    by code_simp
  have "\<not> isl (snd ?v)"
    by code_simp
  then have v1: "?v = (fst ?v, Inr (projr (snd ?v)))"
    by (simp add: prod_eq_iff)
  have v2: "v_valid (projr (snd ?v))"
    by code_simp
  from execute_payment_outcomes
      [of mandate_db "''ap2-0123456789''" example_service "''PO-1''"
          5000000 5000000 5000100] m1 m2 v1 v2
  have "\<exists>db' res. execute_payment example_service mandate_db ''ap2-0123456789'' ''PO-1''
                    5000000 5000000 5000100 = (db', Inr res)
           \<and> e_status res = ''executed'' \<and> e_po_number res = ''PO-1''
           \<and> find_mandate db' ''ap2-0123456789'' =
               Some (?m\<lparr>m_status := ''executed'', m_executed_at := Some 5000100,
                        m_po_number := Some ''PO-1''\<rparr>)"
    by blast
  then have b: "\<exists>db' res. execute_payment example_service mandate_db ''ap2-0123456789'' ''PO-1''
                    5000000 5000000 5000100 = (db', Inr res)
        \<and> e_status res = ''executed'' \<and> e_po_number res = ''PO-1''
        \<and> map_option m_status (find_mandate db' ''ap2-0123456789'') = Some ''executed''
        \<and> map_option m_executed_at (find_mandate db' ''ap2-0123456789'') = Some (Some 5000100)
        \<and> map_option m_po_number (find_mandate db' ''ap2-0123456789'') = Some (Some ''PO-1'')"
    by auto
  from a b show ?thesis
    by blast
qed

section \<open>The round trip of a mandate\<close>

text \<open>
  Claim C7 says that a mandate verified before its \<open>expires_at\<close> with the matching key
  yields its claims. It does not hold: the token's \<open>exp\<close> claim is computed from an
  earlier clock reading and cut to whole seconds, so that it lies before \<open>expires_at\<close>.
  In the example \<open>exp\<close> is 86401 s and \<open>expires_at\<close> 86402.001 s; a verification at
  86402.0005 s finds the signature expired and returns no payload.
\<close>

theorem round_trip_counterexample:
  "\<not> isl (snd (create_mandate example_service example_pay_db ''SUP-A'' 2200 ''USD''
                  ''{}'' (Some ''neg-00000001'') None True ''0123456789abcdef''
                  1999000 1999000 1999000 2001000 2003000))
   \<and> map_option m_expires_at (find_mandate mandate_db ''ap2-0123456789'') = Some 86402001000
   \<and> (86402000500 :: time) < 86402001000
   \<and> snd (verify_mandate example_service mandate_db ''ap2-0123456789'' None
            86402000500 86402000500)
       = Inr (verify_failure ''ap2-0123456789'' ''Signature expired'' None)
   \<and> v_decoded_payload (verify_failure ''ap2-0123456789'' ''Signature expired'' None) = None"
  by code_simp

text \<open>
  Claim C7, amended. A mandate created from an amount, a currency and a supplier, and
  verified by a service holding the matching public key at a reading not after
  \<open>expires_at\<close> and, at the library's clock, not before the token's \<open>iat\<close> and before
  its \<open>exp\<close>, yields a valid answer whose decoded payload carries that amount, that
  currency and that supplier as subject.
\<close>

theorem mandate_round_trip:
  assumes "create_mandate svc db supp amount currency order_details session_id po_number
             user_consent uuid_hex now_iat now_exp now_consent now_expires db_now
             = (db1, Inr res)"
    and "public_key svc' = public_key svc"
    and "\<not> mc_expires_at res < now"
    and "int_timestamp svc now_iat * 1000000 \<le> jwt_now"
    and "jwt_now < int_timestamp svc (now_exp + hours24) * 1000000"
  shows "\<exists>db2 vr p.
           verify_mandate svc' db1 (mc_mandate_id res) merchant_authorization now jwt_now
             = (db2, Inr vr)
         \<and> v_valid vr \<and> v_decoded_payload vr = Some p
         \<and> cl_amount p = amount \<and> cl_currency p = currency \<and> cl_sub p = supp"
  using assms
  by (auto simp: create_mandate_def Let_def find_mandate_def find_snoc verify_mandate_def
                 jwt_decode_def jwt_encode_fields signature_valid_encode public_key_def
           split: if_splits option.splits)

theorem mandate_round_trip_witness:
  "\<exists>db2 vr p.
     verify_mandate example_service mandate_db ''ap2-0123456789'' None 5000000 5000000
       = (db2, Inr vr)
   \<and> v_valid vr \<and> v_decoded_payload vr = Some p
   \<and> cl_amount p = 2200 \<and> cl_currency p = ''USD'' \<and> cl_sub p = ''SUP-A''"
proof -
  let ?c = "create_mandate example_service example_pay_db ''SUP-A'' 2200 ''USD''
              ''{}'' (Some ''neg-00000001'') None True ''0123456789abcdef''
              1999000 1999000 1999000 2001000 2003000"
  have "\<not> isl (snd ?c)"
    by code_simp
  then have c1: "?c = (mandate_db, Inr (projr (snd ?c)))"
    by (simp add: prod_eq_iff mandate_db_def)
  have c2: "\<not> mc_expires_at (projr (snd ?c)) < 5000000"
    by code_simp
  have c3: "int_timestamp example_service 1999000 * 1000000 \<le> 5000000"
    by code_simp
  have c4: "5000000 < int_timestamp example_service (1999000 + hours24) * 1000000"
    by code_simp
  have c5: "mc_mandate_id (projr (snd ?c)) = ''ap2-0123456789''"
    by code_simp
  from mandate_round_trip [OF c1 refl c2 c3 c4, of None] c5
  show ?thesis
    by simp
qed

end
